theory Spec2Isabelle
  imports Main
begin

section \<open>The Monolith plugin: archiving a selected link\<close>

text \<open>
  The plugin exists in two revisions of one file: \<^verbatim>\<open>src/main.ts\<close> (anchor tags, a
  decoration engine) and \<^verbatim>\<open>src/unnamed/part_000\<close> (markdown links, no decorations).
  Definitions that differ between the two take the revision as an argument.
  \<^verbatim>\<open>src/main.ts\<close> carries an earlier draft of itself behind a separator line (from line
  292 on); the model follows the file up to that line.
\<close>

datatype revision = MainTs | Part000

subsection \<open>JavaScript strings and arrays\<close>

text \<open>
  \<^verbatim>\<open>s.split(c)\<close> for a one-character separator: the result is never empty,
  \<^verbatim>\<open>"".split('/')\<close> is \<^verbatim>\<open>[""]\<close> and \<^verbatim>\<open>"/".split('/')\<close> is \<^verbatim>\<open>["", ""]\<close>.
\<close>

fun js_split :: "char \<Rightarrow> string \<Rightarrow> string list" where
  "js_split c [] = [[]]"
| "js_split c (x # xs) =
     (if x = c then [] # js_split c xs
      else (case js_split c xs of
              [] \<Rightarrow> [[x]]
            | y # ys \<Rightarrow> (x # y) # ys))"

text \<open>\<^verbatim>\<open>xs.join(sep)\<close>.\<close>

fun js_join :: "string \<Rightarrow> string list \<Rightarrow> string" where
  "js_join sep [] = []"
| "js_join sep [x] = x"
| "js_join sep (x # y # ys) = x @ sep @ js_join sep (y # ys)"

text \<open>
  \<^verbatim>\<open>xs.pop()\<close> removes and returns the last element; on an empty array it returns
  \<^verbatim>\<open>undefined\<close> (here \<open>None\<close>) and leaves the array empty.
\<close>

definition pop :: "'a list \<Rightarrow> 'a option \<times> 'a list" where
  "pop xs = (if xs = [] then (None, []) else (Some (last xs), butlast xs))"

text \<open>Truthiness of a string-or-undefined value: only \<^verbatim>\<open>undefined\<close> and \<^verbatim>\<open>""\<close> are falsy.\<close>

definition truthy :: "string option \<Rightarrow> bool" where
  "truthy v = (case v of None \<Rightarrow> False | Some s \<Rightarrow> s \<noteq> [])"

text \<open>A value inside a template literal: \<^verbatim>\<open>`${undefined}`\<close> is the text \<^verbatim>\<open>undefined\<close>.\<close>

definition template :: "string option \<Rightarrow> string" where
  "template v = (case v of None \<Rightarrow> ''undefined'' | Some s \<Rightarrow> s)"

subsection \<open>Settings and URLs\<close>

record MonolithPluginSettings =
  cliOpts :: "string list"
  outputPath :: string

text \<open>\<^verbatim>\<open>DEFAULT_SETTINGS\<close>; the result of \<^verbatim>\<open>homedir()\<close> is an argument.\<close>

definition DEFAULT_SETTINGS :: "string \<Rightarrow> MonolithPluginSettings" where
  "DEFAULT_SETTINGS homedir = \<lparr>cliOpts = [''--no-js'', ''--isolate''], outputPath = homedir\<rparr>"

text \<open>
  A parsed \<^verbatim>\<open>URL\<close> object, reduced to what the plugin reads: \<^verbatim>\<open>url.pathname\<close> and
  \<^verbatim>\<open>url.toString()\<close> (the \<open>href\<close>). The platform's parser \<^verbatim>\<open>new URL(s)\<close> is an argument
  \<open>newURL :: string \<Rightarrow> URL option\<close> of the functions that call it, \<open>None\<close> when it throws.
\<close>

record URL =
  pathname :: string
  href :: string

subsection \<open>archiveLink: file name and argument list\<close>

text \<open>
  \<^verbatim>\<open>const path = url.pathname.split('/');\<close>
  \<^verbatim>\<open>const outputFile = `${path.pop() || path.pop()}.html`;\<close>
  The second \<^verbatim>\<open>pop\<close> runs only when the first result is falsy, on the array the first
  one has already shortened.
\<close>

definition outputFile :: "URL \<Rightarrow> string" where
  "outputFile url =
     (let path = js_split CHR ''/'' (pathname url);
          (a, path1) = pop path
      in template (if truthy a then a else fst (pop path1)) @ ''.html'')"

text \<open>\<^verbatim>\<open>const baseArgs = [`-o${outputFile}`, url.toString()];\<close>\<close>

definition baseArgs :: "URL \<Rightarrow> string list" where
  "baseArgs url = [''-o'' @ outputFile url, href url]"

text \<open>
  \<^verbatim>\<open>cliOpts[0]\<close> is \<^verbatim>\<open>undefined\<close> on an empty array, and \<^verbatim>\<open>undefined !== ''\<close> holds.
\<close>

definition archiveArgs :: "MonolithPluginSettings \<Rightarrow> URL \<Rightarrow> string list" where
  "archiveArgs s url =
     (if (case cliOpts s of [] \<Rightarrow> True | f # _ \<Rightarrow> f \<noteq> [])
      then cliOpts s @ baseArgs url
      else baseArgs url)"

subsection \<open>The host: editors, notices, console, child processes\<close>

text \<open>
  The host application's editor, reduced to its text and selection. An \<^verbatim>\<open>EditorPosition\<close>
  is taken as the offset of the position in the text (the host converts between the two
  with \<^verbatim>\<open>posToOffset\<close>/\<^verbatim>\<open>offsetToPos\<close>).
\<close>

record editor =
  doc :: string
  sel_anchor :: nat
  sel_head :: nat

text \<open>\<^verbatim>\<open>editor.getCursor("from")\<close> and \<^verbatim>\<open>editor.getCursor("to")\<close>: the ends of the selection.\<close>

definition getCursorFrom :: "editor \<Rightarrow> nat" where
  "getCursorFrom e = min (sel_anchor e) (sel_head e)"

definition getCursorTo :: "editor \<Rightarrow> nat" where
  "getCursorTo e = max (sel_anchor e) (sel_head e)"

definition getSelection :: "editor \<Rightarrow> string" where
  "getSelection e = take (getCursorTo e - getCursorFrom e) (drop (getCursorFrom e) (doc e))"

definition setSelection :: "nat \<Rightarrow> nat \<Rightarrow> editor \<Rightarrow> editor" where
  "setSelection a h e = e\<lparr>sel_anchor := a, sel_head := h\<rparr>"

text \<open>\<^verbatim>\<open>editor.replaceSelection(s)\<close>: the selected text is replaced, the cursor ends after it.\<close>

definition replaceSelection :: "string \<Rightarrow> editor \<Rightarrow> editor" where
  "replaceSelection s e =
     e\<lparr>doc := take (getCursorFrom e) (doc e) @ s @ drop (getCursorTo e) (doc e),
       sel_anchor := getCursorFrom e + length s,
       sel_head := getCursorFrom e + length s\<rparr>"

text \<open>The \<^verbatim>\<open>range\<close> object \<^verbatim>\<open>{ from, to }\<close> built by the command.\<close>

record range =
  range_from :: nat
  range_to :: nat

text \<open>One call \<^verbatim>\<open>spawn(command, args, { cwd })\<close>.\<close>

record spawn_call =
  command :: string
  spawnargs :: "string list"
  cwd :: string

text \<open>
  A spawned child together with what its three listeners close over: the view (by
  identity, as the listeners keep a reference to it), the URL, the range and the file name.
\<close>

record child =
  call :: spawn_call
  env_view :: nat
  env_url :: URL
  env_range :: range
  env_outputFile :: string

text \<open>
  What a child process emits: data on \<^verbatim>\<open>stdout\<close>, data on \<^verbatim>\<open>stderr\<close>, and \<^verbatim>\<open>close\<close> with
  the exit code (\<^verbatim>\<open>null\<close>, here \<open>None\<close>, when a signal ended the process).
\<close>

datatype proc_event = StdoutData string | StderrData string | Close "int option"

text \<open>
  The plugin's world: \<^verbatim>\<open>this.settings\<close>, the views of the workspace and which one is the
  active markdown view, the notices shown, the console, the children spawned (in order),
  and the data last written by \<^verbatim>\<open>saveData\<close>.
\<close>

record world =
  settings :: MonolithPluginSettings
  activeView :: "nat option"
  editors :: "nat \<Rightarrow> editor"
  notices :: "string list"
  console :: "string list"
  children :: "child list"
  savedData :: "MonolithPluginSettings option"

definition Notice :: "string \<Rightarrow> world \<Rightarrow> world" where
  "Notice msg w = w\<lparr>notices := notices w @ [msg]\<rparr>"

definition console_log :: "string \<Rightarrow> world \<Rightarrow> world" where
  "console_log msg w = w\<lparr>console := console w @ [msg]\<rparr>"

definition update_editor :: "nat \<Rightarrow> (editor \<Rightarrow> editor) \<Rightarrow> world \<Rightarrow> world" where
  "update_editor v f w = w\<lparr>editors := (editors w)(v := f (editors w v))\<rparr>"

subsection \<open>archiveLink: spawning and the listeners\<close>

text \<open>
  The link text. \<^verbatim>\<open>src/main.ts\<close>:
  \<^verbatim>\<open>`<a class="archivedLink" href="file://${this.settings.outputPath}/${outputFile}">(archived)</a>`\<close>;
  \<^verbatim>\<open>part_000\<close>: \<^verbatim>\<open>`[(archived)](file://${this.settings.outputPath}/${outputFile})`\<close>.
\<close>

definition fileTarget :: "string \<Rightarrow> string \<Rightarrow> string" where
  "fileTarget out file = ''file://'' @ out @ ''/'' @ file"

fun linkString :: "revision \<Rightarrow> string \<Rightarrow> string \<Rightarrow> string" where
  "linkString MainTs out file =
     ''<a class='' @ [CHR 0x22] @ ''archivedLink'' @ [CHR 0x22] @ '' href='' @ [CHR 0x22]
       @ fileTarget out file @ [CHR 0x22] @ ''>(archived)</a>''"
| "linkString Part000 out file = ''[(archived)]('' @ fileTarget out file @ '')''"

text \<open>
  The \<^verbatim>\<open>close\<close> listener. \<^verbatim>\<open>this.settings.outputPath\<close> is read when the listener runs;
  \<^verbatim>\<open>code === 0\<close> is false for \<^verbatim>\<open>null\<close>.
\<close>

definition on_close :: "revision \<Rightarrow> child \<Rightarrow> int option \<Rightarrow> world \<Rightarrow> world" where
  "on_close rv c code w =
     (if code = Some 0 then
        (let s = linkString rv (outputPath (settings w)) (env_outputFile c);
             w1 = update_editor (env_view c)
                    (setSelection (range_to (env_range c)) (range_from (env_range c))) w;
             w2 = update_editor (env_view c)
                    (replaceSelection (href (env_url c) @ '' '' @ s)) w1
         in Notice ''Link archived!'' w2)
      else Notice ''Archiving failed, check console.'' w)"

text \<open>The three listeners of one child, by event.\<close>

fun listener :: "revision \<Rightarrow> child \<Rightarrow> proc_event \<Rightarrow> world \<Rightarrow> world" where
  "listener rv c (StdoutData d) w = console_log d w"
| "listener rv c (StderrData d) w = console_log d w"
| "listener rv c (Close code) w = on_close rv c code w"

text \<open>The events of one child, delivered in order.\<close>

definition deliver :: "revision \<Rightarrow> child \<Rightarrow> proc_event list \<Rightarrow> world \<Rightarrow> world" where
  "deliver rv c evs w = fold (listener rv c) evs w"

definition archiveLink :: "nat \<Rightarrow> URL \<Rightarrow> range \<Rightarrow> world \<Rightarrow> world" where
  "archiveLink view url rng w =
     (let monolith = \<lparr>command = ''monolith'',
                       spawnargs = archiveArgs (settings w) url,
                       cwd = outputPath (settings w)\<rparr>
      in w\<lparr>children := children w @
            [\<lparr>call = monolith, env_view = view, env_url = url, env_range = rng,
              env_outputFile = outputFile url\<rparr>]\<rparr>)"

subsection \<open>The command's check callback\<close>

text \<open>
  The callback returns \<^verbatim>\<open>true\<close> or falls off its end (\<^verbatim>\<open>undefined\<close>, here \<open>None\<close>).
  In \<^verbatim>\<open>src/main.ts\<close> the selection, range and URL are computed with \<^verbatim>\<open>view?.\<close> before the
  guard \<^verbatim>\<open>view && url && range\<close>; none of that has an effect, \<^verbatim>\<open>range\<close> is an object and so
  truthy, and without a view the guard fails whatever the URL is.
  In \<^verbatim>\<open>part_000\<close> the callback starts with \<^verbatim>\<open>if (!view) return true;\<close>.
  \<^verbatim>\<open>getSelection() || ""\<close> is the selection itself.
\<close>

definition checkCallback ::
  "revision \<Rightarrow> (string \<Rightarrow> URL option) \<Rightarrow> bool \<Rightarrow> world \<Rightarrow> bool option \<times> world" where
  "checkCallback rv newURL checking w =
     (case activeView w of
        None \<Rightarrow> (case rv of MainTs \<Rightarrow> (None, w) | Part000 \<Rightarrow> (Some True, w))
      | Some view \<Rightarrow>
          (let potentialUrl = (if getSelection (editors w view) = [] then []
                               else getSelection (editors w view));
               rng = \<lparr>range_from = getCursorFrom (editors w view),
                      range_to = getCursorTo (editors w view)\<rparr>
           in case newURL potentialUrl of
                None \<Rightarrow> (None, w)
              | Some url \<Rightarrow>
                  (Some True, if \<not> checking then archiveLink view url rng w else w)))"

subsection \<open>Loading and saving the settings\<close>

text \<open>
  What \<^verbatim>\<open>loadData()\<close> resolves to: \<^verbatim>\<open>null\<close> (\<open>None\<close>) when nothing was stored, otherwise an
  object in which each of the two keys may be present or absent.
\<close>

record stored =
  stored_cliOpts :: "string list option"
  stored_outputPath :: "string option"

text \<open>
  \<^verbatim>\<open>Object.assign({}, DEFAULT_SETTINGS, data)\<close>: the defaults are copied first, then every key
  of the data overwrites; a \<^verbatim>\<open>null\<close> source is skipped.
\<close>

definition Object_assign :: "MonolithPluginSettings \<Rightarrow> stored option \<Rightarrow> MonolithPluginSettings" where
  "Object_assign dflt data =
     (case data of
        None \<Rightarrow> dflt
      | Some d \<Rightarrow>
          \<lparr>cliOpts = (case stored_cliOpts d of None \<Rightarrow> cliOpts dflt | Some v \<Rightarrow> v),
           outputPath = (case stored_outputPath d of None \<Rightarrow> outputPath dflt | Some v \<Rightarrow> v)\<rparr>)"

definition loadSettings :: "string \<Rightarrow> stored option \<Rightarrow> world \<Rightarrow> world" where
  "loadSettings homedir data w = w\<lparr>settings := Object_assign (DEFAULT_SETTINGS homedir) data\<rparr>"

definition saveSettings :: "world \<Rightarrow> world" where
  "saveSettings w = w\<lparr>savedData := Some (settings w)\<rparr>"

subsection \<open>The settings tab\<close>

text \<open>The children of \<^verbatim>\<open>containerEl\<close>, in document order.\<close>

record element =
  tag :: string
  el_text :: string
  cls :: string

text \<open>\<^verbatim>\<open>containerEl.querySelector('.' + c)\<close>: the first element of that class, or \<^verbatim>\<open>null\<close>.\<close>

definition querySelector :: "string \<Rightarrow> element list \<Rightarrow> element option" where
  "querySelector c els = find (\<lambda>e. cls e = c) els"

definition createEl :: "string \<Rightarrow> string \<Rightarrow> string \<Rightarrow> element list \<Rightarrow> element list" where
  "createEl t txt c els = els @ [\<lparr>tag = t, el_text = txt, cls = c\<rparr>]"

text \<open>\<^verbatim>\<open>display()\<close>: the container is emptied, then the heading and the two settings are added.\<close>

definition display :: "element list \<Rightarrow> element list" where
  "display containerEl =
     createEl ''div'' ''Output folder'' ''setting-item''
       (createEl ''div'' ''Flags'' ''setting-item''
          (createEl ''h2'' ''Monolith plugin settings'' [] []))"

text \<open>The \<^verbatim>\<open>onChange\<close> of the flags field.\<close>

definition cliOpts_onChange :: "string \<Rightarrow> world \<Rightarrow> world" where
  "cliOpts_onChange val w =
     saveSettings (w\<lparr>settings := (settings w)\<lparr>cliOpts := js_split CHR '' '' val\<rparr>\<rparr>)"

text \<open>
  The \<^verbatim>\<open>onChange\<close> of the output folder field. \<open>fs\<close> is the file system when \<^verbatim>\<open>stat(value)\<close>
  is answered: \<open>None\<close> when \<^verbatim>\<open>stat\<close> rejects, otherwise \<open>Some\<close> of what
  \<^verbatim>\<open>stats.isDirectory()\<close> returns.
\<close>

definition outputPath_onChange ::
  "(string \<Rightarrow> bool option) \<Rightarrow> string \<Rightarrow> element list \<times> world \<Rightarrow> element list \<times> world" where
  "outputPath_onChange fs val st =
     (let containerEl = fst st; w = snd st;
          stats = fs val;
          containerEl1 =
            (if stats = None \<and> querySelector ''outErr'' containerEl = None
             then createEl ''h2'' ''Invalid path will not be saved.'' ''outErr'' containerEl
             else containerEl)
      in if stats = Some True then
           (let w1 = saveSettings (w\<lparr>settings := (settings w)\<lparr>outputPath := val\<rparr>\<rparr>)
            in (case querySelector ''outErr'' containerEl1 of
                  None \<Rightarrow> (containerEl1, w1)
                | Some err \<Rightarrow> (remove1 err containerEl1, w1)))
         else (containerEl1, w))"

text \<open>A session of edits of the output folder field, each with the file system of its moment.\<close>

definition outputPath_edits ::
  "((string \<Rightarrow> bool option) \<times> string) list \<Rightarrow> element list \<times> world \<Rightarrow> element list \<times> world" where
  "outputPath_edits evs st = fold (\<lambda>(fs, val). outputPath_onChange fs val) evs st"

definition outErr_count :: "element list \<Rightarrow> nat" where
  "outErr_count els = length (filter (\<lambda>e. cls e = ''outErr'') els)"

subsection \<open>The decoration engine (src/main.ts only)\<close>

text \<open>
  The editor view as the decoration builder sees it: the lines of the document (without
  their line breaks; a document has at least one line) and the visible ranges.
\<close>

record Line =
  line_from :: nat
  line_to :: nat
  line_text :: string

datatype js_error = RangeError | TypeError | Error

text \<open>
  \<^verbatim>\<open>doc.lineAt(pos)\<close>: the line around \<open>pos\<close>; a position behind the end of the document
  is a \<^verbatim>\<open>RangeError\<close>. \<open>start\<close> is the offset of the first line of \<open>ls\<close>.
\<close>

fun lineAtFrom :: "string list \<Rightarrow> nat \<Rightarrow> nat \<Rightarrow> Line option" where
  "lineAtFrom [] start pos = None"
| "lineAtFrom (l # ls) start pos =
     (if pos \<le> start + length l
      then Some \<lparr>line_from = start, line_to = start + length l, line_text = l\<rparr>
      else lineAtFrom ls (start + length l + 1) pos)"

definition lineAt :: "string list \<Rightarrow> nat \<Rightarrow> Line option" where
  "lineAt lines pos = lineAtFrom lines 0 pos"

text \<open>\<^verbatim>\<open>xs.findIndex(p)\<close>, with \<open>None\<close> for \<^verbatim>\<open>-1\<close>.\<close>

fun findIndex :: "('a \<Rightarrow> bool) \<Rightarrow> 'a list \<Rightarrow> nat option" where
  "findIndex p [] = None"
| "findIndex p (x # xs) =
     (if p x then Some 0 else (case findIndex p xs of None \<Rightarrow> None | Some i \<Rightarrow> Some (Suc i)))"

text \<open>\<^verbatim>\<open>s.contains(t)\<close> (the host's alias of \<^verbatim>\<open>includes\<close>) and \<^verbatim>\<open>s.slice(-2)\<close>.\<close>

fun is_prefix :: "string \<Rightarrow> string \<Rightarrow> bool" where
  "is_prefix [] s = True"
| "is_prefix (x # xs) [] = False"
| "is_prefix (x # xs) (y # ys) = (x = y \<and> is_prefix xs ys)"

fun contains :: "string \<Rightarrow> string \<Rightarrow> bool" where
  "contains [] t = (t = [])"
| "contains (x # xs) t = (is_prefix t (x # xs) \<or> contains xs t)"

definition slice_last2 :: "string \<Rightarrow> string" where
  "slice_last2 s = drop (length s - 2) s"

text \<open>
  A replace decoration with its \<^verbatim>\<open>LinkWidget\<close>: the widget's \<open>href\<close> (possibly
  \<^verbatim>\<open>undefined\<close>) and the decoration's \<^verbatim>\<open>startSide\<close> and \<^verbatim>\<open>endSide\<close>.
\<close>

record Decoration =
  widget_href :: "string option"
  startSide :: int
  endSide :: int

text \<open>
  The \<^verbatim>\<open>RangeSetBuilder\<close> of the editor library. One layer holds the ranges it has accepted
  and \<^verbatim>\<open>lastFrom\<close>, \<^verbatim>\<open>lastTo\<close> (both \<open>-1000000000\<close> at first) and \<^verbatim>\<open>last\<close> (\<^verbatim>\<open>null\<close> at
  first). A builder is its own layer and the chain of its \<^verbatim>\<open>nextLayer\<close> builders.
\<close>

record layer =
  ranges :: "(nat \<times> nat \<times> Decoration) list"
  lastFrom :: int
  lastTo :: int
  lastDeco :: "Decoration option"

record RangeSetBuilder =
  own_layer :: layer
  nextLayers :: "layer list"

definition new_layer :: layer where
  "new_layer = \<lparr>ranges = [], lastFrom = - 1000000000, lastTo = - 1000000000, lastDeco = None\<rparr>"

definition new_builder :: RangeSetBuilder where
  "new_builder = \<lparr>own_layer = new_layer, nextLayers = []\<rparr>"

text \<open>
  \<^verbatim>\<open>a - b || value.startSide - this.last.side\<close>: the difference of the positions, or when
  that is 0 the difference of the sides; reading a side of \<^verbatim>\<open>null\<close> throws.
\<close>

definition or_side :: "int \<Rightarrow> int \<Rightarrow> (Decoration \<Rightarrow> int) \<Rightarrow> Decoration option \<Rightarrow> js_error + int" where
  "or_side a s side l =
     (if a \<noteq> 0 then Inr a
      else (case l of None \<Rightarrow> Inl TypeError | Some p \<Rightarrow> Inr (s - side p)))"

definition accept :: "nat \<Rightarrow> nat \<Rightarrow> Decoration \<Rightarrow> layer \<Rightarrow> layer" where
  "accept f t d l =
     \<lparr>ranges = ranges l @ [(f, t, d)], lastFrom = int f, lastTo = int t, lastDeco = Some d\<rparr>"

text \<open>
  \<^verbatim>\<open>addInner\<close>: a range that is not sorted behind the last one (by \<^verbatim>\<open>from\<close>, then by
  \<^verbatim>\<open>startSide\<close>) throws an \<^verbatim>\<open>Error\<close>; one that starts before the last one ends is refused
  (\<open>None\<close>, the \<^verbatim>\<open>false\<close> of the library); every other range is accepted.
\<close>

definition addInner :: "nat \<Rightarrow> nat \<Rightarrow> Decoration \<Rightarrow> layer \<Rightarrow> js_error + layer option" where
  "addInner f t d l =
     (case or_side (int f - lastTo l) (startSide d) endSide (lastDeco l) of
        Inl e \<Rightarrow> Inl e
      | Inr diff \<Rightarrow>
          (if diff \<le> 0 then
             (case or_side (int f - lastFrom l) (startSide d) startSide (lastDeco l) of
                Inl e \<Rightarrow> Inl e
              | Inr order \<Rightarrow>
                  (if order < 0 then Inl Error
                   else if diff < 0 then Inr None
                   else Inr (Some (accept f t d l))))
           else Inr (Some (accept f t d l))))"

text \<open>
  \<^verbatim>\<open>add\<close> on the chain of further layers: the first layer that accepts the range takes it,
  and behind the last layer a new one is made. A new layer accepts every range, its
  \<^verbatim>\<open>lastTo\<close> lying before every position; were it to refuse, the library would make layer
  after layer until the stack is exhausted.
\<close>

fun add_layers :: "nat \<Rightarrow> nat \<Rightarrow> Decoration \<Rightarrow> layer list \<Rightarrow> js_error + layer list" where
  "add_layers f t d [] =
     (case addInner f t d new_layer of
        Inl e \<Rightarrow> Inl e
      | Inr None \<Rightarrow> Inl RangeError
      | Inr (Some l1) \<Rightarrow> Inr [l1])"
| "add_layers f t d (l # ls) =
     (case addInner f t d l of
        Inl e \<Rightarrow> Inl e
      | Inr (Some l1) \<Rightarrow> Inr (l1 # ls)
      | Inr None \<Rightarrow>
          (case add_layers f t d ls of
             Inl e \<Rightarrow> Inl e
           | Inr ls1 \<Rightarrow> Inr (l # ls1)))"

text \<open>\<^verbatim>\<open>builder.add(from, to, value)\<close>.\<close>

definition builder_add ::
  "nat \<Rightarrow> nat \<Rightarrow> Decoration \<Rightarrow> RangeSetBuilder \<Rightarrow> js_error + RangeSetBuilder" where
  "builder_add f t d b =
     (case addInner f t d (own_layer b) of
        Inl e \<Rightarrow> Inl e
      | Inr (Some l1) \<Rightarrow> Inr (b\<lparr>own_layer := l1\<rparr>)
      | Inr None \<Rightarrow>
          (case add_layers f t d (nextLayers b) of
             Inl e \<Rightarrow> Inl e
           | Inr ls1 \<Rightarrow> Inr (b\<lparr>nextLayers := ls1\<rparr>)))"

text \<open>\<^verbatim>\<open>builder.finish()\<close>: the ranges of all layers.\<close>

definition finish :: "RangeSetBuilder \<Rightarrow> (nat \<times> nat \<times> Decoration) list" where
  "finish b = ranges (own_layer b) @ concat (map ranges (nextLayers b))"

text \<open>
  The host's platform, as far as the builder calls it: the URL parser, the \<^verbatim>\<open>href\<close> of the
  first element child of a template filled with the text (\<open>None\<close> when there is no element,
  where reading \<^verbatim>\<open>.href\<close> of \<^verbatim>\<open>null\<close> throws; \<open>Some None\<close> when the element has no
  \<^verbatim>\<open>href\<close>), and the \<^verbatim>\<open>startSide\<close> and \<^verbatim>\<open>endSide\<close> a new replace decoration has.
\<close>

record platform =
  newURL :: "string \<Rightarrow> URL option"
  firstElementHref :: "string \<Rightarrow> string option option"
  replaceSide :: int
  replaceEndSide :: int

text \<open>
  The body of the inner loop for one line, at position \<open>pos\<close>. The \<^verbatim>\<open>console.log\<close> of the
  position at the head of the body is left out. \<^verbatim>\<open>builder.lastFrom\<close> and \<^verbatim>\<open>builder.last\<close>
  are the fields of the builder's own layer.
\<close>

definition decorate_line ::
  "platform \<Rightarrow> nat \<Rightarrow> Line \<Rightarrow> RangeSetBuilder \<Rightarrow> js_error + RangeSetBuilder" where
  "decorate_line pf pos line builder =
     (let lineChunks = js_split CHR '' '' (line_text line) in
      case findIndex (\<lambda>s. newURL pf s \<noteq> None) lineChunks of
        None \<Rightarrow> Inr builder
      | Some i \<Rightarrow>
          (let afterUrl = js_join '' '' (drop (i + 1) lineChunks);
               isArchiveLink =
                 (contains afterUrl (''class='' @ [CHR 0x22] @ ''archivedLink'' @ [CHR 0x22])
                  \<and> slice_last2 afterUrl = ''a>'')
           in if isArchiveLink then
                (case firstElementHref pf afterUrl of
                   None \<Rightarrow> Inl TypeError
                 | Some h \<Rightarrow>
                     (let startPos = pos + length (lineChunks ! i) + 1;
                          endPos = startPos + length afterUrl;
                          deco = \<lparr>widget_href = h, startSide = replaceSide pf,
                                  endSide = replaceEndSide pf\<rparr>
                      in if lastFrom (own_layer builder) = int (line_from line) then
                           (case lastDeco (own_layer builder) of
                              None \<Rightarrow> Inl TypeError
                            | Some l \<Rightarrow>
                                builder_add startPos endPos
                                  (deco\<lparr>startSide := startSide l + 1\<rparr>) builder)
                         else builder_add startPos endPos deco builder))
              else Inr builder))"

text \<open>\<^verbatim>\<open>for (let pos = from; pos <= to;) { ...; pos = line.to + 1 }\<close>\<close>

function scan_range ::
  "platform \<Rightarrow> string list \<Rightarrow> nat \<Rightarrow> nat \<Rightarrow> RangeSetBuilder \<Rightarrow> js_error + RangeSetBuilder" where
  "scan_range pf lines pos to builder =
     (if pos \<le> to then
        (case lineAt lines pos of
           None \<Rightarrow> Inl RangeError
         | Some line \<Rightarrow>
             (case decorate_line pf pos line builder of
                Inl e \<Rightarrow> Inl e
              | Inr builder1 \<Rightarrow> scan_range pf lines (line_to line + 1) to builder1))
      else Inr builder)"
  by pat_completeness auto
termination
proof (relation "measure (\<lambda>(pf, lines, pos, to, builder). Suc to - pos)")
  show "wf (measure (\<lambda>(pf, lines, pos, to, builder). Suc to - pos))"
    by simp
next
  fix pf :: platform and lines :: "string list" and pos to :: nat
    and builder builder1 :: RangeSetBuilder and line :: Line
  assume le: "pos \<le> to" and at: "lineAt lines pos = Some line"
  have "lineAtFrom ls start pos = Some line \<Longrightarrow> pos \<le> line_to line" for ls start
    by (induction ls arbitrary: start) (auto split: if_splits)
  with at have "pos \<le> line_to line"
    by (simp add: lineAt_def)
  with le show "((pf, lines, line_to line + 1, to, builder1), (pf, lines, pos, to, builder))
      \<in> measure (\<lambda>(pf, lines, pos, to, builder). Suc to - pos)"
    by simp
qed

text \<open>\<^verbatim>\<open>for (const { from, to } of view.visibleRanges) ...\<close>, then \<^verbatim>\<open>builder.finish()\<close>.\<close>

fun scan_ranges ::
  "platform \<Rightarrow> string list \<Rightarrow> (nat \<times> nat) list \<Rightarrow> RangeSetBuilder \<Rightarrow> js_error + RangeSetBuilder" where
  "scan_ranges pf lines [] builder = Inr builder"
| "scan_ranges pf lines ((f, t) # rs) builder =
     (case scan_range pf lines f t builder of
        Inl e \<Rightarrow> Inl e
      | Inr builder1 \<Rightarrow> scan_ranges pf lines rs builder1)"

definition buildDecorations ::
  "platform \<Rightarrow> string list \<Rightarrow> (nat \<times> nat) list \<Rightarrow> js_error + (nat \<times> nat \<times> Decoration) list" where
  "buildDecorations pf lines visibleRanges =
     (case scan_ranges pf lines visibleRanges new_builder of
        Inl e \<Rightarrow> Inl e
      | Inr builder \<Rightarrow> Inr (finish builder))"

text \<open>
  \<^verbatim>\<open>LinkWidget.toDOM\<close>: an anchor with the text \<^verbatim>\<open>(archived)\<close> whose \<open>href\<close> is assigned
  from the widget's (an \<^verbatim>\<open>undefined\<close> one is stored as the text \<^verbatim>\<open>undefined\<close>), and whose
  \<^verbatim>\<open>onclick\<close> opens the \<open>href\<close> of the element clicked. The resolution of the \<open>href\<close>
  against the document's address is the host's and is left out.
\<close>

record anchor_element =
  innerText :: string
  a_href :: string

definition toDOM :: "Decoration \<Rightarrow> anchor_element" where
  "toDOM d = \<lparr>innerText = ''(archived)'', a_href = template (widget_href d)\<rparr>"

definition onclick :: "anchor_element \<Rightarrow> string" where
  "onclick target = a_href target"

subsection \<open>What the listeners log\<close>

text \<open>The console lines one event of a child produces: its data, nothing for \<^verbatim>\<open>close\<close>.\<close>

fun logged :: "proc_event \<Rightarrow> string list" where
  "logged (StdoutData d) = [d]"
| "logged (StderrData d) = [d]"
| "logged (Close code) = []"

subsection \<open>Concrete inputs\<close>

text \<open>
  A note \<^verbatim>\<open>see https://x.y/a/b now\<close> with the URL selected, the default settings of a user
  whose home is \<^verbatim>\<open>/home/u\<close>, and the child that archiving this URL spawns.
\<close>

definition url0 :: URL where
  "url0 = \<lparr>pathname = ''/a/b'', href = ''https://x.y/a/b''\<rparr>"

definition newURL0 :: "string \<Rightarrow> URL option" where
  "newURL0 s = (if s = ''https://x.y/a/b'' then Some url0 else None)"

definition world0 :: world where
  "world0 = \<lparr>settings = DEFAULT_SETTINGS ''/home/u'',
              activeView = Some 0,
              editors = (\<lambda>_. \<lparr>doc = ''see https://x.y/a/b now'', sel_anchor = 4, sel_head = 19\<rparr>),
              notices = [], console = [], children = [], savedData = None\<rparr>"

definition child0 :: child where
  "child0 = \<lparr>call = \<lparr>command = ''monolith'',
                     spawnargs = [''--no-js'', ''--isolate'', ''-ob.html'', ''https://x.y/a/b''],
                     cwd = ''/home/u''\<rparr>,
             env_view = 0, env_url = url0, env_range = \<lparr>range_from = 4, range_to = 19\<rparr>,
             env_outputFile = ''b.html''\<rparr>"

text \<open>
  The line the plugin itself writes when the selected URL ends the note
  \<^verbatim>\<open>see https://x.y/a/b\<close>, and a platform that parses this URL and reads the anchor.
\<close>

definition line0 :: string where
  "line0 = ''see https://x.y/a/b '' @ linkString MainTs ''/home/u'' ''b.html''"

definition pf0 :: platform where
  "pf0 = \<lparr>newURL = newURL0,
          firstElementHref =
            (\<lambda>s. if s = linkString MainTs ''/home/u'' ''b.html''
                 then Some (Some ''file:///home/u/b.html'') else None),
          replaceSide = 499999999,
          replaceEndSide = - 599999999\<rparr>"

text \<open>The error heading of the settings tab, and a file system whose only directory is \<^verbatim>\<open>/srv\<close>.\<close>

definition errHeading :: element where
  "errHeading = \<lparr>tag = ''h2'', el_text = ''Invalid path will not be saved.'', cls = ''outErr''\<rparr>"

definition fs0 :: "string \<Rightarrow> bool option" where
  "fs0 p = (if p = ''/srv'' then Some True else if p = ''/etc/hosts'' then Some False else None)"

section \<open>Properties\<close>

subsection \<open>Splitting a pathname\<close>

lemma js_split_nonempty: "js_split c s \<noteq> []"
  by (induction s) (auto split: list.splits)

lemma js_split_single: "js_split c s = [x] \<Longrightarrow> x = s"
  by (induction s arbitrary: x) (auto simp: js_split_nonempty split: if_splits list.splits)

lemma js_split_two:
  assumes ne: "s \<noteq> []" and l: "last (js_split c s) = []"
  shows "2 \<le> length (js_split c s)"
proof (cases "js_split c s")
  case Nil
  then show ?thesis by (simp add: js_split_nonempty)
next
  case outer: (Cons x xs)
  show ?thesis
  proof (cases xs)
    case Nil
    with outer have "x = s" by (simp add: js_split_single)
    with outer Nil l ne show ?thesis by simp
  next
    case (Cons y ys)
    with outer show ?thesis by simp
  qed
qed

text \<open>
  For a pathname that is not empty the file name is the last segment, or the one before it
  when the last is empty, and then there is one before it.
\<close>

lemma outputFile_segments:
  assumes "pathname url \<noteq> []"
  shows "outputFile url =
     (let segs = js_split CHR ''/'' (pathname url)
      in (if last segs \<noteq> [] then last segs else last (butlast segs)) @ ''.html'')
     \<and> (last (js_split CHR ''/'' (pathname url)) = []
          \<longrightarrow> 2 \<le> length (js_split CHR ''/'' (pathname url)))"
proof -
  let ?segs = "js_split CHR ''/'' (pathname url)"
  have ne: "?segs \<noteq> []" by (rule js_split_nonempty)
  have two: "last ?segs = [] \<Longrightarrow> 2 \<le> length ?segs"
    using assms by (rule js_split_two)
  have "last ?segs = [] \<Longrightarrow> butlast ?segs \<noteq> []"
  proof -
    assume "last ?segs = []"
    then have "2 \<le> length ?segs" by (rule two)
    then show ?thesis by (cases ?segs) auto
  qed
  then show ?thesis
    using ne two by (auto simp: outputFile_def pop_def truthy_def template_def Let_def)
qed

subsection \<open>The close listener\<close>

text \<open>
  C1. Whenever the archiving process closes: with exit code 0 the notice
  \<^verbatim>\<open>Link archived!\<close> is shown and the text of the view becomes the old text with the
  range replaced by the URL, a space and the link; with any other code (or none) the only
  change to the world is the notice \<^verbatim>\<open>Archiving failed, check console.\<close>, and the editors
  are as they were. Both revisions.
\<close>

theorem close_outcome:
  "(code = Some 0 \<longrightarrow>
      notices (on_close rv c code w) = notices w @ [''Link archived!'']
      \<and> doc (editors (on_close rv c code w) (env_view c)) =
          take (min (range_to (env_range c)) (range_from (env_range c)))
            (doc (editors w (env_view c)))
          @ (href (env_url c) @ '' ''
             @ linkString rv (outputPath (settings w)) (env_outputFile c))
          @ drop (max (range_to (env_range c)) (range_from (env_range c)))
              (doc (editors w (env_view c))))
   \<and> (code \<noteq> Some 0 \<longrightarrow>
      on_close rv c code w = w\<lparr>notices := notices w @ [''Archiving failed, check console.'']\<rparr>
      \<and> editors (on_close rv c code w) = editors w)"
  by (simp add: on_close_def Notice_def update_editor_def replaceSelection_def setSelection_def
      getCursorFrom_def getCursorTo_def Let_def)

theorem close_outcome_witness:
  "notices (on_close MainTs child0 (Some 0) world0) = [''Link archived!'']
   \<and> doc (editors (on_close MainTs child0 (Some 0) world0) 0) =
       ''see https://x.y/a/b <a class='' @ [CHR 0x22] @ ''archivedLink'' @ [CHR 0x22] @ '' href=''
        @ [CHR 0x22] @ ''file:///home/u/b.html'' @ [CHR 0x22] @ ''>(archived)</a> now''
   \<and> on_close Part000 child0 (Some 1) world0 =
       world0\<lparr>notices := [''Archiving failed, check console.'']\<rparr>"
  using close_outcome [of "Some 0" MainTs child0 world0]
    close_outcome [of "Some 1" Part000 child0 world0]
  by (simp add: child0_def world0_def url0_def DEFAULT_SETTINGS_def fileTarget_def)

text \<open>
  C5. When the process of an \<^verbatim>\<open>archiveLink\<close> call closes with code 0, the text put in place
  of the range handed to \<^verbatim>\<open>archiveLink\<close> is the URL string, one space, and the link, and the
  link's target is \<^verbatim>\<open>file://\<close>, the output path, \<^verbatim>\<open>/\<close> and the output file: inside an anchor
  tag in \<^verbatim>\<open>src/main.ts\<close>, inside a markdown link in \<^verbatim>\<open>part_000\<close>. The output path is the one
  configured when the process closes.
\<close>

theorem close_splices_link:
  "doc (editors (on_close rv (last (children (archiveLink v u r w))) (Some 0) w') v) =
     take (min (range_to r) (range_from r)) (doc (editors w' v))
     @ (href u @ '' '' @ linkString rv (outputPath (settings w')) (outputFile u))
     @ drop (max (range_to r) (range_from r)) (doc (editors w' v))
   \<and> linkString MainTs out file =
       ''<a class='' @ [CHR 0x22] @ ''archivedLink'' @ [CHR 0x22] @ '' href='' @ [CHR 0x22]
       @ (''file://'' @ out @ ''/'' @ file) @ [CHR 0x22] @ ''>(archived)</a>''
   \<and> linkString Part000 out file = ''[(archived)]('' @ (''file://'' @ out @ ''/'' @ file) @ '')''"
  by (simp add: archiveLink_def on_close_def Notice_def update_editor_def replaceSelection_def
      setSelection_def getCursorFrom_def getCursorTo_def Let_def fileTarget_def)

subsection \<open>The argument list and the file name\<close>

text \<open>
  C2. \<^verbatim>\<open>archiveLink\<close> spawns \<^verbatim>\<open>monolith\<close> in the configured output path; its arguments are
  the configured flags followed by \<^verbatim>\<open>-o\<close> with the output file and by the URL string when
  the first flag is a non-empty string, and only those two when the first flag is the empty
  string.
\<close>

theorem archiveLink_args:
  "(\<forall>f fs. cliOpts (settings w) = f # fs \<and> f \<noteq> [] \<longrightarrow>
      map call (children (archiveLink v u r w)) = map call (children w) @
        [\<lparr>command = ''monolith'',
          spawnargs = cliOpts (settings w) @ [''-o'' @ outputFile u, href u],
          cwd = outputPath (settings w)\<rparr>])
   \<and> (\<forall>fs. cliOpts (settings w) = [] # fs \<longrightarrow>
      map call (children (archiveLink v u r w)) = map call (children w) @
        [\<lparr>command = ''monolith'',
          spawnargs = [''-o'' @ outputFile u, href u],
          cwd = outputPath (settings w)\<rparr>])
   \<and> cwd (call (last (children (archiveLink v u r w)))) = outputPath (settings w)"
  by (simp add: archiveLink_def archiveArgs_def baseArgs_def)

theorem archiveLink_args_witness:
  "map call (children (archiveLink 0 url0 \<lparr>range_from = 4, range_to = 19\<rparr> world0)) =
     [\<lparr>command = ''monolith'',
       spawnargs = [''--no-js'', ''--isolate'', ''-ob.html'', ''https://x.y/a/b''],
       cwd = ''/home/u''\<rparr>]
   \<and> map call (children (archiveLink 0 url0 \<lparr>range_from = 4, range_to = 19\<rparr>
         (world0\<lparr>settings := \<lparr>cliOpts = ['''', ''--no-js''], outputPath = ''/srv''\<rparr>\<rparr>))) =
     [\<lparr>command = ''monolith'', spawnargs = [''-ob.html'', ''https://x.y/a/b''], cwd = ''/srv''\<rparr>]"
  using archiveLink_args [of world0 0 url0 "\<lparr>range_from = 4, range_to = 19\<rparr>"]
    archiveLink_args
      [of "world0\<lparr>settings := \<lparr>cliOpts = ['''', ''--no-js''], outputPath = ''/srv''\<rparr>\<rparr>" 0 url0
          "\<lparr>range_from = 4, range_to = 19\<rparr>"]
  by (simp add: world0_def url0_def DEFAULT_SETTINGS_def outputFile_def pop_def truthy_def
      template_def)

text \<open>
  C3. The file name is meant to be the last segment of the pathname, or the one before it
  after a trailing slash (\<open>outputFile_segments\<close>). A URL whose pathname is empty, such as
  \<^verbatim>\<open>mailto:\<close>, has the single segment \<^verbatim>\<open>""\<close>: the second \<^verbatim>\<open>pop\<close> finds the array empty, and
  the file name is \<^verbatim>\<open>undefined.html\<close>.
\<close>

theorem outputFile_empty_pathname:
  "js_split CHR ''/'' (pathname \<lparr>pathname = [], href = ''mailto:''\<rparr>) = [[]]
   \<and> outputFile \<lparr>pathname = [], href = ''mailto:''\<rparr> = ''undefined.html''"
  by (simp add: outputFile_def pop_def truthy_def template_def)

text \<open>
  C10. The file name of every URL ends in \<^verbatim>\<open>.html\<close>. For the pathname \<^verbatim>\<open>/\<close> the segments
  are two empty strings, both calls of \<^verbatim>\<open>pop\<close> return the empty string, and the file name
  is \<^verbatim>\<open>.html\<close> alone.
\<close>

theorem outputFile_ends_html:
  "drop (length (outputFile url) - 5) (outputFile url) = ''.html''
   \<and> pop (js_split CHR ''/'' ''/'') = (Some [], [[]])
   \<and> pop [[]] = (Some ([] :: string), [])
   \<and> outputFile (url\<lparr>pathname := ''/''\<rparr>) = ''.html''"
  by (simp add: outputFile_def pop_def truthy_def template_def Let_def split: prod.splits)

subsection \<open>The check callback\<close>

text \<open>
  In \<^verbatim>\<open>src/main.ts\<close> the callback reports the command as runnable exactly when there is an
  active markdown view whose selection parses as a URL.
\<close>

lemma checkCallback_runnable_MainTs:
  "(fst (checkCallback MainTs nu checking w) = Some True) =
     (\<exists>v. activeView w = Some v \<and> nu (getSelection (editors w v)) \<noteq> None)"
  by (auto simp: checkCallback_def Let_def split: option.splits)

text \<open>
  In both revisions \<^verbatim>\<open>archiveLink\<close> is called only with a view, a parsed URL and
  \<open>checking\<close> false, and then once.
\<close>

lemma checkCallback_effect:
  "snd (checkCallback rv nu checking w) =
     (case activeView w of
        None \<Rightarrow> w
      | Some v \<Rightarrow>
          (case nu (getSelection (editors w v)) of
             None \<Rightarrow> w
           | Some u \<Rightarrow>
               if checking then w
               else archiveLink v u \<lparr>range_from = getCursorFrom (editors w v),
                                     range_to = getCursorTo (editors w v)\<rparr> w))"
  by (cases rv) (auto simp: checkCallback_def Let_def split: option.splits)

text \<open>
  C4. Without an active markdown view the callback of \<^verbatim>\<open>part_000\<close> returns \<^verbatim>\<open>true\<close>, whatever
  the parser and \<open>checking\<close> are, and leaves the world as it is: the command is reported as
  runnable although there is no view and no URL. The callback of \<^verbatim>\<open>src/main.ts\<close> returns
  \<^verbatim>\<open>undefined\<close> in the same state.
\<close>

theorem checkCallback_no_view:
  "activeView (world0\<lparr>activeView := None\<rparr>) = None
   \<and> checkCallback Part000 nu checking (world0\<lparr>activeView := None\<rparr>) =
       (Some True, world0\<lparr>activeView := None\<rparr>)
   \<and> checkCallback MainTs nu checking (world0\<lparr>activeView := None\<rparr>) =
       (None, world0\<lparr>activeView := None\<rparr>)"
  by (simp add: checkCallback_def)

subsection \<open>One process, its streams logged\<close>

lemma console_on_close: "console (on_close rv c code w) = console w"
  by (simp add: on_close_def Notice_def update_editor_def Let_def)

lemma console_listener: "console (listener rv c ev w) = console w @ logged ev"
  by (cases ev) (simp_all add: console_log_def console_on_close)

lemma console_deliver: "console (deliver rv c evs w) = console w @ concat (map logged evs)"
  unfolding deliver_def
  by (induction evs arbitrary: w) (simp_all add: console_listener)

lemma children_on_close: "children (on_close rv c code w) = children w"
  by (simp add: on_close_def Notice_def update_editor_def Let_def)

lemma children_listener: "children (listener rv c ev w) = children w"
  by (cases ev) (simp_all add: console_log_def children_on_close)

lemma children_deliver: "children (deliver rv c evs w) = children w"
  unfolding deliver_def
  by (induction evs arbitrary: w) (simp_all add: children_listener)

text \<open>
  Every call of \<^verbatim>\<open>archiveLink\<close> spawns exactly one process, \<^verbatim>\<open>monolith\<close>.
\<close>

lemma archiveLink_one_child:
  "length (children (archiveLink v u r w)) = Suc (length (children w))
   \<and> command (call (last (children (archiveLink v u r w)))) = ''monolith''"
  by (simp add: archiveLink_def)

text \<open>
  In \<^verbatim>\<open>src/main.ts\<close> every execution of the command (\<open>checking\<close> false) that returns
  \<^verbatim>\<open>true\<close> has spawned exactly one process, and so has, in both revisions, every execution
  with an active view whose selection parses as a URL.
\<close>

lemma checkCallback_MainTs_one_child:
  "fst (checkCallback MainTs nu False w) = Some True \<Longrightarrow>
     length (children (snd (checkCallback MainTs nu False w))) = Suc (length (children w))"
  by (auto simp: checkCallback_def archiveLink_def Let_def split: option.splits)

lemma checkCallback_with_url_one_child:
  "activeView w = Some v \<Longrightarrow> nu (getSelection (editors w v)) = Some u \<Longrightarrow>
     fst (checkCallback rv nu False w) = Some True
     \<and> snd (checkCallback rv nu False w) =
         archiveLink v u \<lparr>range_from = getCursorFrom (editors w v),
                          range_to = getCursorTo (editors w v)\<rparr> w"
  by (simp add: checkCallback_def Let_def)

text \<open>
  C7. Without an active markdown view the command of \<^verbatim>\<open>part_000\<close> is offered (the check
  returns \<^verbatim>\<open>true\<close>), and executing it (\<open>checking\<close> false) returns \<^verbatim>\<open>true\<close> again while
  the list of spawned processes stays as it was, here empty: this execution spawns no
  process, where exactly one is claimed.
\<close>

theorem command_without_view_spawns_nothing:
  "fst (checkCallback Part000 nu True (world0\<lparr>activeView := None\<rparr>)) = Some True
   \<and> fst (checkCallback Part000 nu False (world0\<lparr>activeView := None\<rparr>)) = Some True
   \<and> children (snd (checkCallback Part000 nu False (world0\<lparr>activeView := None\<rparr>)))
       = children (world0\<lparr>activeView := None\<rparr>)
   \<and> children (world0\<lparr>activeView := None\<rparr>) = []"
  by (simp add: checkCallback_def world0_def)

subsection \<open>Settings\<close>

text \<open>
  C6. The settings record is its two fields, the flags and the output path.
  \<^verbatim>\<open>loadSettings\<close> takes each field from the stored data when it is there and from the
  defaults (\<^verbatim>\<open>--no-js\<close>, \<^verbatim>\<open>--isolate\<close>; the home directory) otherwise. \<^verbatim>\<open>saveSettings\<close> stores
  the current record unchanged, and each of the two fields of the settings tab calls it
  whenever it changes the record.
\<close>

theorem settings_load_save:
  "(s :: MonolithPluginSettings) = \<lparr>cliOpts = cliOpts s, outputPath = outputPath s\<rparr>
   \<and> cliOpts (settings (loadSettings homedir data w)) =
       (case data of
          None \<Rightarrow> [''--no-js'', ''--isolate'']
        | Some d \<Rightarrow> (case stored_cliOpts d of None \<Rightarrow> [''--no-js'', ''--isolate''] | Some v \<Rightarrow> v))
   \<and> outputPath (settings (loadSettings homedir data w)) =
       (case data of
          None \<Rightarrow> homedir
        | Some d \<Rightarrow> (case stored_outputPath d of None \<Rightarrow> homedir | Some v \<Rightarrow> v))
   \<and> savedData (saveSettings w) = Some (settings w)
   \<and> settings (saveSettings w) = settings w
   \<and> cliOpts (settings (cliOpts_onChange val w)) = js_split CHR '' '' val
   \<and> savedData (cliOpts_onChange val w) = Some (settings (cliOpts_onChange val w))
   \<and> (settings (snd (outputPath_onChange fs val (els, w))) \<noteq> settings w \<longrightarrow>
        savedData (snd (outputPath_onChange fs val (els, w))) =
          Some (settings (snd (outputPath_onChange fs val (els, w)))))"
  by (auto simp: loadSettings_def Object_assign_def DEFAULT_SETTINGS_def saveSettings_def
      cliOpts_onChange_def outputPath_onChange_def Let_def split: option.splits)

theorem settings_load_save_witness:
  "settings (snd (outputPath_onChange fs0 ''/srv'' (display [], world0))) \<noteq> settings world0
   \<and> savedData (snd (outputPath_onChange fs0 ''/srv'' (display [], world0))) =
      Some \<lparr>cliOpts = [''--no-js'', ''--isolate''], outputPath = ''/srv''\<rparr>"
  using settings_load_save [of "settings world0" "''/home/u''" None world0 "''/srv''" fs0
      "display []"]
  by (simp add: world0_def DEFAULT_SETTINGS_def outputPath_onChange_def saveSettings_def
      fs0_def Let_def split: option.splits)

subsection \<open>The output folder field\<close>

lemma querySelector_None: "(querySelector c els = None) = (filter (\<lambda>e. cls e = c) els = [])"
  by (induction els) (auto simp: querySelector_def)

lemma querySelector_cls: "querySelector c els = Some e \<Longrightarrow> cls e = c"
  by (induction els) (auto simp: querySelector_def split: if_splits)

lemma querySelector_Some:
  assumes "querySelector c els = Some e"
  shows "Suc (length (filter (\<lambda>e. cls e = c) (remove1 e els)))
         = length (filter (\<lambda>e. cls e = c) els)"
proof -
  have "cls e = c" using assms by (rule querySelector_cls)
  moreover have "e \<in> set els"
    using assms by (induction els) (auto simp: querySelector_def split: if_splits)
  ultimately show ?thesis
    by (induction els) auto
qed

lemma outErr_count_onChange:
  "outErr_count (fst (outputPath_onChange fs val (els, w))) \<le> max 1 (outErr_count els)"
  by (auto simp: outputPath_onChange_def outErr_count_def createEl_def Let_def
      querySelector_None dest!: querySelector_Some split: option.splits)

lemma outputPath_onChange_settings:
  "snd (outputPath_onChange fs val (els, w)) =
     (if fs val = Some True
      then w\<lparr>settings := (settings w)\<lparr>outputPath := val\<rparr>,
             savedData := Some ((settings w)\<lparr>outputPath := val\<rparr>)\<rparr>
      else w)"
  by (auto simp: outputPath_onChange_def saveSettings_def Let_def split: option.splits)

lemma outputPath_edits_Cons:
  "outputPath_edits ((fs, val) # evs) st = outputPath_edits evs (outputPath_onChange fs val st)"
  by (simp add: outputPath_edits_def)

lemma outputPath_edits_count:
  "outErr_count (fst st) \<le> 1 \<Longrightarrow> outErr_count (fst (outputPath_edits evs st)) \<le> 1"
proof (induction evs arbitrary: st)
  case Nil
  then show ?case by (simp add: outputPath_edits_def)
next
  case (Cons ev evs)
  obtain fs val where ev: "ev = (fs, val)" by (cases ev)
  obtain els w where st: "st = (els, w)" by (cases st)
  have "outErr_count (fst (outputPath_onChange fs val st)) \<le> 1"
    using Cons.prems outErr_count_onChange [of fs val els w] by (simp add: st)
  then have "outErr_count (fst (outputPath_edits evs (outputPath_onChange fs val st))) \<le> 1"
    by (rule Cons.IH)
  then show ?case
    by (simp add: ev outputPath_edits_Cons)
qed

lemma outputPath_edits_accepted:
  "outputPath (settings (snd (outputPath_edits evs st))) = outputPath (settings (snd st))
   \<or> (\<exists>(fs, val) \<in> set evs. fs val = Some True
         \<and> val = outputPath (settings (snd (outputPath_edits evs st))))"
proof (induction evs arbitrary: st)
  case Nil
  then show ?case by (simp add: outputPath_edits_def)
next
  case (Cons ev evs)
  obtain fs val where ev: "ev = (fs, val)" by (cases ev)
  obtain els w where st: "st = (els, w)" by (cases st)
  let ?st1 = "outputPath_onChange fs val st"
  from Cons.IH [of ?st1]
  show ?case
  proof
    assume same: "outputPath (settings (snd (outputPath_edits evs ?st1)))
                  = outputPath (settings (snd ?st1))"
    show ?thesis
    proof (cases "fs val = Some True")
      case True
      then have "outputPath (settings (snd ?st1)) = val"
        by (simp add: st outputPath_onChange_settings)
      with same True show ?thesis
        by (auto simp: ev outputPath_edits_Cons)
    next
      case False
      then have "snd ?st1 = snd st"
        by (simp add: st outputPath_onChange_settings)
      with same show ?thesis
        by (simp add: ev outputPath_edits_Cons)
    qed
  next
    assume "\<exists>(fs, val) \<in> set evs. fs val = Some True
         \<and> val = outputPath (settings (snd (outputPath_edits evs ?st1)))"
    then show ?thesis
      by (auto simp: ev outputPath_edits_Cons)
  qed
qed

lemma outErr_count_display: "outErr_count (display els) = 0"
  by (simp add: display_def createEl_def outErr_count_def)

text \<open>
  C9. An edit of the output folder field changes and saves the output path only when
  \<^verbatim>\<open>stat\<close> finds the entered path and it is a directory; any other entry leaves the world,
  and with it the stored path, as it is. When \<^verbatim>\<open>stat\<close> fails and the pane has no error
  heading, the heading \<^verbatim>\<open>Invalid path will not be saved.\<close> is added. The pane that \<^verbatim>\<open>display\<close>
  builds has no error heading, and a pane with at most one keeps at most one through every
  edit. After any sequence of edits the output path is the one before them or an entry that
  was a directory when it was entered.
\<close>

theorem outputPath_only_directories:
  "(fs val = Some True \<longrightarrow>
      outputPath (settings (snd (outputPath_onChange fs val (els, w)))) = val
      \<and> savedData (snd (outputPath_onChange fs val (els, w))) =
          Some (settings (snd (outputPath_onChange fs val (els, w)))))
   \<and> (fs val \<noteq> Some True \<longrightarrow> snd (outputPath_onChange fs val (els, w)) = w)
   \<and> (fs val = None \<and> outErr_count els = 0 \<longrightarrow>
        fst (outputPath_onChange fs val (els, w)) = els @ [errHeading])
   \<and> outErr_count (display els0) = 0
   \<and> (outErr_count els \<le> 1 \<longrightarrow>
        outErr_count (fst (outputPath_onChange fs val (els, w))) \<le> 1
        \<and> outErr_count (fst (outputPath_edits evs (els, w))) \<le> 1)
   \<and> (outputPath (settings (snd (outputPath_edits evs (els, w)))) = outputPath (settings w)
        \<or> (\<exists>(fs', val') \<in> set evs. fs' val' = Some True
              \<and> val' = outputPath (settings (snd (outputPath_edits evs (els, w))))))"
proof -
  have a: "fs val = Some True \<Longrightarrow>
      outputPath (settings (snd (outputPath_onChange fs val (els, w)))) = val
      \<and> savedData (snd (outputPath_onChange fs val (els, w))) =
          Some (settings (snd (outputPath_onChange fs val (els, w))))"
    by (simp add: outputPath_onChange_settings)
  have b: "fs val \<noteq> Some True \<Longrightarrow> snd (outputPath_onChange fs val (els, w)) = w"
    by (simp add: outputPath_onChange_settings)
  have c: "fs val = None \<and> outErr_count els = 0 \<Longrightarrow>
        fst (outputPath_onChange fs val (els, w)) = els @ [errHeading]"
    by (simp add: outputPath_onChange_def outErr_count_def querySelector_None createEl_def
        errHeading_def Let_def)
  have d: "outErr_count els \<le> 1 \<Longrightarrow>
        outErr_count (fst (outputPath_onChange fs val (els, w))) \<le> 1"
    using outErr_count_onChange [of fs val els w] by simp
  have e: "outErr_count els \<le> 1 \<Longrightarrow> outErr_count (fst (outputPath_edits evs (els, w))) \<le> 1"
    using outputPath_edits_count [of "(els, w)" evs] by simp
  have f: "outputPath (settings (snd (outputPath_edits evs (els, w)))) = outputPath (settings w)
        \<or> (\<exists>(fs', val') \<in> set evs. fs' val' = Some True
              \<and> val' = outputPath (settings (snd (outputPath_edits evs (els, w)))))"
    using outputPath_edits_accepted [of evs "(els, w)"] by simp
  from a b c d e f outErr_count_display show ?thesis
    by blast
qed

theorem outputPath_only_directories_witness:
  "fs0 ''/srv'' = Some True
   \<and> outputPath (settings (snd (outputPath_onChange fs0 ''/srv'' (display [], world0)))) = ''/srv''
   \<and> fs0 ''/etc/hosts'' \<noteq> Some True
   \<and> snd (outputPath_onChange fs0 ''/etc/hosts'' (display [], world0)) = world0
   \<and> fs0 ''/nope'' = None \<and> outErr_count (display []) = 0
   \<and> fst (outputPath_onChange fs0 ''/nope'' (display [], world0)) = display [] @ [errHeading]
   \<and> outErr_count (fst (outputPath_edits [(fs0, ''/nope''), (fs0, ''/nop'')] (display [], world0)))
       \<le> 1"
  using outputPath_only_directories [of fs0 "''/srv''" "display []" world0 "[]"
      "[(fs0, ''/nope''), (fs0, ''/nop'')]"]
    outputPath_only_directories [of fs0 "''/etc/hosts''" "display []" world0 "[]" "[]"]
    outputPath_only_directories [of fs0 "''/nope''" "display []" world0 "[]" "[]"]
  by (simp add: fs0_def)

subsection \<open>The decoration engine\<close>

lemma js_split_join: "js_join [c] (js_split c s) = s"
proof (induction s)
  case Nil
  then show ?case by simp
next
  case (Cons x xs)
  obtain y ys where "js_split c xs = y # ys"
    using js_split_nonempty [of c xs] by (cases "js_split c xs") auto
  with Cons show ?case
    by (cases ys) auto
qed

lemma js_split_first:
  assumes "js_split c s = x # rest" and "rest \<noteq> []"
  shows "s = x @ [c] @ js_join [c] rest"
proof -
  obtain y ys where "rest = y # ys"
    using assms(2) by (cases rest) auto
  with assms(1) have "js_join [c] (js_split c s) = x @ [c] @ js_join [c] rest"
    by simp
  then show ?thesis
    by (simp add: js_split_join)
qed

text \<open>
  When the URL is the first chunk of a line, the loop stands at the start of the line and
  the ranges added before end before the line, the decoration spans the remainder of the
  line exactly, from behind the space after the URL to the end of the line, and carries
  the \<open>href\<close> read from the anchor.
\<close>

lemma decorate_line_first_chunk:
  assumes chunks: "js_split CHR '' '' (line_text line) = x # rest"
    and url: "newURL pf x \<noteq> None"
    and marker: "contains (js_join '' '' rest)
                   (''class='' @ [CHR 0x22] @ ''archivedLink'' @ [CHR 0x22])"
    and ending: "slice_last2 (js_join '' '' rest) = ''a>''"
    and anchor: "firstElementHref pf (js_join '' '' rest) = Some h"
    and fresh: "lastFrom (own_layer b) \<noteq> int (line_from line)"
    and before: "lastTo (own_layer b) < int (line_from line)"
    and extent: "line_to line = line_from line + length (line_text line)"
  shows "line_text line = x @ '' '' @ js_join '' '' rest
     \<and> decorate_line pf (line_from line) line b =
         Inr (b\<lparr>own_layer := accept (line_from line + length x + 1) (line_to line)
                \<lparr>widget_href = h, startSide = replaceSide pf, endSide = replaceEndSide pf\<rparr>
                (own_layer b)\<rparr>)"
proof -
  have "js_join '' '' rest \<noteq> []"
    using ending by (auto simp: slice_last2_def)
  then have "rest \<noteq> []"
    by auto
  with chunks have shape: "line_text line = x @ '' '' @ js_join '' '' rest"
    by (rule js_split_first)
  then have len: "length (line_text line) = length x + 1 + length (js_join '' '' rest)"
    by simp
  have add: "builder_add s t d b = Inr (b\<lparr>own_layer := accept s t d (own_layer b)\<rparr>)"
    if "line_from line < s" for s t d
    using before that by (simp add: builder_add_def addInner_def or_side_def)
  have "decorate_line pf (line_from line) line b =
         Inr (b\<lparr>own_layer := accept (line_from line + length x + 1) (line_to line)
                \<lparr>widget_href = h, startSide = replaceSide pf, endSide = replaceEndSide pf\<rparr>
                (own_layer b)\<rparr>)"
    using url marker ending anchor fresh
    by (simp add: decorate_line_def chunks Let_def extent len add.assoc add)
  with shape show ?thesis
    by simp
qed

text \<open>
  The widget is an anchor reading \<^verbatim>\<open>(archived)\<close> whose click opens the \<open>href\<close> assigned
  from the widget.
\<close>

lemma LinkWidget_opens_href:
  "onclick (toDOM d) = template (widget_href d) \<and> innerText (toDOM d) = ''(archived)''"
  by (simp add: onclick_def toDOM_def)

text \<open>The line \<open>line0\<close> is what the close listener of \<^verbatim>\<open>src/main.ts\<close> writes.\<close>

lemma line0_written:
  "doc (editors (on_close MainTs child0 (Some 0)
      (world0\<lparr>editors := (\<lambda>_. \<lparr>doc = ''see https://x.y/a/b'', sel_anchor = 4, sel_head = 19\<rparr>)\<rparr>)) 0)
   = line0"
  by (simp add: on_close_def Notice_def update_editor_def replaceSelection_def setSelection_def
      getCursorFrom_def getCursorTo_def Let_def child0_def world0_def url0_def line0_def
      DEFAULT_SETTINGS_def)

text \<open>
  C8. On the line \<open>line0\<close>, 87 characters long, the URL is the second chunk and the
  remainder behind it, the anchor, is the text from 20 to 87. The start of the decoration is
  computed as the position of the line plus the length of the URL plus one, which leaves out
  the chunk before the URL: the decoration added spans 16 to 83.
\<close>

theorem buildDecorations_offset:
  "length line0 = 87
   \<and> js_split CHR '' '' line0 ! 1 = ''https://x.y/a/b''
   \<and> drop 20 line0 = linkString MainTs ''/home/u'' ''b.html''
   \<and> buildDecorations pf0 [line0] [(0, 87)] =
       Inr [(16, 83, \<lparr>widget_href = Some ''file:///home/u/b.html'', startSide = 499999999,
                     endSide = - 599999999\<rparr>)]"
  by code_simp

end
